theory Spec2Isabelle
  imports Main "HOL-Library.AList" "HOL-Library.Sublist"
begin

section \<open>Python strings and dictionaries\<close>

text \<open>
  A Python \<^verbatim>\<open>str\<close> is modelled as a \<open>string\<close> whose characters are the code points
  below 256, so \<open>length\<close> counts code points as \<^verbatim>\<open>len\<close> does. The character
  predicates below are Python's, restricted to that range.
\<close>

definition char_code :: "char \<Rightarrow> nat" where
  "char_code c = of_char c"

text \<open>\<^verbatim>\<open>str.isdigit\<close> on one character: the ASCII digits and, below 256, the superscripts
  two, three and one (U+00B2, U+00B3, U+00B9).\<close>

definition isdigit_char :: "char \<Rightarrow> bool" where
  "isdigit_char c =
     (let n = char_code c in (48 \<le> n \<and> n \<le> 57) \<or> n = 178 \<or> n = 179 \<or> n = 185)"

text \<open>\<^verbatim>\<open>s.isdigit()\<close>: at least one character, and every character a digit.\<close>

definition isdigit :: "string \<Rightarrow> bool" where
  "isdigit s = (s \<noteq> [] \<and> list_all isdigit_char s)"

text \<open>The characters \<^verbatim>\<open>str.strip()\<close> removes: U+0009..U+000D, U+001C..U+0020, U+0085, U+00A0.\<close>

definition isspace_char :: "char \<Rightarrow> bool" where
  "isspace_char c =
     (let n = char_code c in (9 \<le> n \<and> n \<le> 13) \<or> (28 \<le> n \<and> n \<le> 32) \<or> n = 133 \<or> n = 160)"

definition strip :: "string \<Rightarrow> string" where
  "strip s = rev (dropWhile isspace_char (rev (dropWhile isspace_char s)))"

text \<open>\<^verbatim>\<open>s.replace(old, new)\<close> for a one-character \<open>old\<close>: every occurrence of the
  character becomes the text \<open>new\<close>. \<open>remove_spaces\<close> is \<^verbatim>\<open>s.replace(' ', '')\<close>.\<close>

definition str_replace_char :: "string \<Rightarrow> char \<Rightarrow> string \<Rightarrow> string" where
  "str_replace_char s old new = concat (map (\<lambda>c. if c = old then new else [c]) s)"

definition remove_spaces :: "string \<Rightarrow> string" where
  "remove_spaces s = str_replace_char s (CHR '' '') []"

text \<open>\<^verbatim>\<open>c in '0123456789abcdefABCDEF'\<close> for a single character \<open>c\<close>.\<close>

definition in_hex_alphabet :: "char \<Rightarrow> bool" where
  "in_hex_alphabet c = (c \<in> set ''0123456789abcdefABCDEF'')"

text \<open>\<^verbatim>\<open>str(n)\<close> for an integer, as the f-strings of the source render it. (CPython refuses
  to render an integer of more than 4300 digits unless that limit is raised; the
  rendering here has no limit.)\<close>

definition digit_char :: "nat \<Rightarrow> char" where
  "digit_char d = char_of (48 + d)"

function str_of_nat :: "nat \<Rightarrow> string" where
  "str_of_nat n =
     (if n < 10 then [digit_char n] else str_of_nat (n div 10) @ [digit_char (n mod 10)])"
  by pat_completeness auto
termination
  by (relation "measure id") auto

declare str_of_nat.simps [simp del]


text \<open>
  A \<^verbatim>\<open>Dict[str, str]\<close> is an association list with distinct keys, in insertion order
  (the order \<^verbatim>\<open>for k in d\<close> iterates in). \<open>dict_set\<close> is \<^verbatim>\<open>d[k] = v\<close>: an existing key
  keeps its position, a new key goes last. Two dictionaries are equal in Python when
  they map the same keys to the same values, that is when their \<open>map_of\<close> agree.
  Keys and values are strings, as the annotations of the source say. Records are values
  here: a dictionary object that the caller adds to a batch twice is one shared object
  in Python, which an update in range would change at both positions.
\<close>

type_synonym card = "(string \<times> string) list"

definition dict_set :: "card \<Rightarrow> string \<Rightarrow> string \<Rightarrow> card" where
  "dict_set d k v = AList.update k v d"

definition dict_keys :: "card \<Rightarrow> string list" where
  "dict_keys d = map fst d"

text \<open>\<^verbatim>\<open>d.get(k, default)\<close>.\<close>

definition dict_get :: "card \<Rightarrow> string \<Rightarrow> string \<Rightarrow> string" where
  "dict_get d k dflt = (case map_of d k of None \<Rightarrow> dflt | Some v \<Rightarrow> v)"

section \<open>CSVManager (managers/csv\_manager.py)\<close>

definition STANDARD_COLUMNS :: "string list" where
  "STANDARD_COLUMNS =
     [''ICCID'', ''IMSI'', ''Ki'', ''OPc'', ''ADM1'',
      ''MNC_LENGTH'', ''ALGO_2G'', ''ALGO_3G'', ''ALGO_4G5G'',
      ''USE_OPC'', ''HPLMN'']"

record csv_manager =
  cards :: "card list"
  columns :: "string list"
  filepath :: "string option"

definition csv_manager_init :: csv_manager where
  "csv_manager_init = \<lparr>cards = [], columns = STANDARD_COLUMNS, filepath = None\<rparr>"

subsection \<open>Card access\<close>

definition in_range :: "int \<Rightarrow> 'a list \<Rightarrow> bool" where
  "in_range index xs = (0 \<le> index \<and> index < int (length xs))"

definition get_card_count :: "csv_manager \<Rightarrow> nat" where
  "get_card_count m = length (cards m)"

definition get_card :: "csv_manager \<Rightarrow> int \<Rightarrow> card option" where
  "get_card m index =
     (if in_range index (cards m) then Some (cards m ! nat index) else None)"

text \<open>\<^verbatim>\<open>{col: '' for col in self.columns}\<close>: a column listed twice is one key.\<close>

definition empty_card :: "string list \<Rightarrow> card" where
  "empty_card cols = foldl (\<lambda>d col. dict_set d col []) [] cols"

definition add_card :: "csv_manager \<Rightarrow> card option \<Rightarrow> csv_manager" where
  "add_card m card_data =
     (let card_data = (case card_data of None \<Rightarrow> empty_card (columns m) | Some c \<Rightarrow> c)
      in m\<lparr>cards := cards m @ [card_data]\<rparr>)"

text \<open>\<^verbatim>\<open>self.cards.pop(index)\<close> for an index in range.\<close>

definition list_pop :: "'a list \<Rightarrow> nat \<Rightarrow> 'a list" where
  "list_pop xs i = take i xs @ drop (Suc i) xs"

definition remove_card :: "csv_manager \<Rightarrow> int \<Rightarrow> csv_manager \<times> bool" where
  "remove_card m index =
     (if in_range index (cards m)
      then (m\<lparr>cards := list_pop (cards m) (nat index)\<rparr>, True)
      else (m, False))"

definition update_card :: "csv_manager \<Rightarrow> int \<Rightarrow> string \<Rightarrow> string \<Rightarrow> csv_manager \<times> bool" where
  "update_card m index k v =
     (if in_range index (cards m)
      then (m\<lparr>cards := (cards m)[nat index := dict_set (cards m ! nat index) k v]\<rparr>, True)
      else (m, False))"

subsection \<open>Validation\<close>

definition row_msg :: "nat \<Rightarrow> string \<Rightarrow> string" where
  "row_msg row rule = ''Row '' @ str_of_nat row @ '': '' @ rule"

text \<open>The body of the loop of \<^verbatim>\<open>validate_all\<close> for one card: \<open>errors\<close> is the list so far.\<close>

definition validate_row :: "nat \<Rightarrow> card \<Rightarrow> string list \<Rightarrow> string list" where
  "validate_row row crd errors =
     (let imsi = dict_get crd ''IMSI'' [];
          errors = (if imsi \<noteq> [] \<and> (\<not> isdigit imsi \<or> \<not> (6 \<le> length imsi \<and> length imsi \<le> 15))
                    then errors @ [row_msg row ''IMSI must be 6-15 digits''] else errors);
          iccid = dict_get crd ''ICCID'' [];
          errors = (if iccid \<noteq> [] \<and> (\<not> isdigit iccid \<or> \<not> (10 \<le> length iccid \<and> length iccid \<le> 20))
                    then errors @ [row_msg row ''ICCID must be 10-20 digits''] else errors);
          ki = dict_get crd ''Ki'' [];
          errors = (if ki \<noteq> []
                    then (let ki_clean = remove_spaces ki
                          in if length ki_clean \<noteq> 32 \<or> \<not> list_all in_hex_alphabet ki_clean
                             then errors @ [row_msg row ''Ki must be 32 hex chars''] else errors)
                    else errors);
          opc = dict_get crd ''OPc'' [];
          errors = (if opc \<noteq> []
                    then (let opc_clean = remove_spaces opc
                          in if length opc_clean \<noteq> 32 \<or> \<not> list_all in_hex_alphabet opc_clean
                             then errors @ [row_msg row ''OPc must be 32 hex chars''] else errors)
                    else errors);
          adm1 = dict_get crd ''ADM1'' [];
          errors = (if adm1 \<noteq> [] \<and> length adm1 \<noteq> 8
                    then errors @ [row_msg row ''ADM1 must be 8 chars''] else errors)
      in errors)"

text \<open>\<^verbatim>\<open>for i, card in enumerate(self.cards)\<close>, with \<^verbatim>\<open>row = i + 1\<close>.\<close>

fun validate_loop :: "nat \<Rightarrow> card list \<Rightarrow> string list \<Rightarrow> string list" where
  "validate_loop i [] errors = errors"
| "validate_loop i (crd # rest) errors =
     validate_loop (i + 1) rest (validate_row (i + 1) crd errors)"

definition validate_all :: "csv_manager \<Rightarrow> string list" where
  "validate_all m = validate_loop 0 (cards m) []"


text \<open>
  The conditions under which the loop body appends each message, named so that the
  proofs can speak about them.
\<close>

definition imsi_cond :: "card \<Rightarrow> bool" where
  "imsi_cond c =
     (let v = dict_get c ''IMSI'' []
      in v \<noteq> [] \<and> (\<not> isdigit v \<or> \<not> (6 \<le> length v \<and> length v \<le> 15)))"

definition iccid_cond :: "card \<Rightarrow> bool" where
  "iccid_cond c =
     (let v = dict_get c ''ICCID'' []
      in v \<noteq> [] \<and> (\<not> isdigit v \<or> \<not> (10 \<le> length v \<and> length v \<le> 20)))"

definition hex_cond :: "string \<Rightarrow> card \<Rightarrow> bool" where
  "hex_cond k c =
     (let v = dict_get c k []
      in v \<noteq> [] \<and> (length (remove_spaces v) \<noteq> 32 \<or> \<not> list_all in_hex_alphabet (remove_spaces v)))"

definition adm1_cond :: "card \<Rightarrow> bool" where
  "adm1_cond c = (let v = dict_get c ''ADM1'' [] in v \<noteq> [] \<and> length v \<noteq> 8)"

subsection \<open>The validation rules in the words of the specification\<close>

text \<open>
  These follow the specification, not the code, and use none of the functions above: a
  field is flagged when it is present, non-empty and breaks its format rule. A digit is
  one of the ten characters 0 to 9; a hexadecimal character is a digit or one of the
  letters a to f in either case; stripping the spaces keeps every character but the
  space.
\<close>

definition is_decimal_digit :: "char \<Rightarrow> bool" where
  "is_decimal_digit c = (c \<in> set ''0123456789'')"

definition is_hex_digit :: "char \<Rightarrow> bool" where
  "is_hex_digit c =
     (let n = (of_char c :: nat)
      in (48 \<le> n \<and> n \<le> 57) \<or> (65 \<le> n \<and> n \<le> 70) \<or> (97 \<le> n \<and> n \<le> 102))"

definition without_spaces :: "string \<Rightarrow> string" where
  "without_spaces v = filter (\<lambda>c. c \<noteq> CHR '' '') v"

definition imsi_defect :: "card \<Rightarrow> bool" where
  "imsi_defect c =
     (case map_of c ''IMSI'' of None \<Rightarrow> False
      | Some v \<Rightarrow> v \<noteq> [] \<and> \<not> (list_all is_decimal_digit v \<and> 6 \<le> length v \<and> length v \<le> 15))"

definition iccid_defect :: "card \<Rightarrow> bool" where
  "iccid_defect c =
     (case map_of c ''ICCID'' of None \<Rightarrow> False
      | Some v \<Rightarrow> v \<noteq> [] \<and> \<not> (list_all is_decimal_digit v \<and> 10 \<le> length v \<and> length v \<le> 20))"

definition key_defect :: "string \<Rightarrow> card \<Rightarrow> bool" where
  "key_defect k c =
     (case map_of c k of None \<Rightarrow> False
      | Some v \<Rightarrow> v \<noteq> [] \<and>
          \<not> (length (without_spaces v) = 32 \<and> list_all is_hex_digit (without_spaces v)))"

definition adm1_defect :: "card \<Rightarrow> bool" where
  "adm1_defect c =
     (case map_of c ''ADM1'' of None \<Rightarrow> False | Some v \<Rightarrow> v \<noteq> [] \<and> length v \<noteq> 8)"

text \<open>The characters, other than the ten digits, that \<^verbatim>\<open>str.isdigit\<close> accepts: the
  superscripts two, three and one.\<close>

definition is_superscript_digit :: "char \<Rightarrow> bool" where
  "is_superscript_digit c = (c \<in> {CHR 0xB2, CHR 0xB3, CHR 0xB9})"

definition no_superscript_digit :: "card \<Rightarrow> string \<Rightarrow> bool" where
  "no_superscript_digit c k =
     (case map_of c k of None \<Rightarrow> True | Some v \<Rightarrow> list_all (\<lambda>x. \<not> is_superscript_digit x) v)"

subsection \<open>Reading a decimal numeral\<close>

text \<open>
  The value of a decimal numeral, read from its characters, and the one way of writing
  an integer in decimal: digits only, a minus sign before a negative number, and no
  leading zero.
\<close>

definition ascii_digit :: "char \<Rightarrow> bool" where
  "ascii_digit c = (48 \<le> (of_char c :: nat) \<and> (of_char c :: nat) \<le> 57)"

definition nat_of_str :: "string \<Rightarrow> nat" where
  "nat_of_str s = foldl (\<lambda>a c. 10 * a + (of_char c - 48)) 0 s"




subsection \<open>Loading and saving\<close>

text \<open>
  The \<^verbatim>\<open>csv\<close> module is Python's, not this program's. What \<^verbatim>\<open>load_csv\<close> receives from
  \<^verbatim>\<open>csv.DictReader\<close> is an input of the model: the file could not be opened or reading
  the header raised (\<open>OpenFailed\<close>), the file is empty (\<^verbatim>\<open>fieldnames is None\<close>), the
  header was read and reading the rows then raised, or the header and the rows (one
  dictionary each) were read.
\<close>

datatype csv_read =
    OpenFailed
  | NoHeader
  | HeaderThenError "string list"
  | Parsed "string list" "card list"

definition load_csv :: "csv_manager \<Rightarrow> string \<Rightarrow> csv_read \<Rightarrow> csv_manager \<times> bool" where
  "load_csv m fp src =
     (case src of
        OpenFailed \<Rightarrow> (m, False)
      | NoHeader \<Rightarrow> (m, False)
      | HeaderThenError fieldnames \<Rightarrow> (m\<lparr>columns := fieldnames\<rparr>, False)
      | Parsed fieldnames rows \<Rightarrow>
          (m\<lparr>columns := fieldnames, cards := rows, filepath := Some fp\<rparr>, True))"

text \<open>
  A CSV file as \<^verbatim>\<open>csv.writer\<close> is given it and \<^verbatim>\<open>csv.reader\<close> yields it: a list of rows,
  each a list of cells. \<^verbatim>\<open>DictWriter\<close> with \<^verbatim>\<open>extrasaction='ignore'\<close> writes the header and,
  for each dictionary, the cell \<^verbatim>\<open>d.get(key, '')\<close> of every field name; keys of the
  dictionary that are no field name are passed over in silence.
\<close>

type_synonym csv_table = "string list list"

definition DictWriter_row :: "string list \<Rightarrow> card \<Rightarrow> string list" where
  "DictWriter_row fieldnames d = map (\<lambda>k. dict_get d k []) fieldnames"

definition DictWriter_table :: "string list \<Rightarrow> card list \<Rightarrow> csv_table" where
  "DictWriter_table fieldnames ds = fieldnames # map (DictWriter_row fieldnames) ds"

text \<open>\<open>writable\<close> tells whether the file could be opened for writing; the third component
  is the table written.\<close>

definition save_csv :: "csv_manager \<Rightarrow> string \<Rightarrow> bool \<Rightarrow> csv_manager \<times> bool \<times> csv_table option" where
  "save_csv m fp writable =
     (if writable
      then (m\<lparr>filepath := Some fp\<rparr>, True, Some (DictWriter_table (columns m) (cards m)))
      else (m, False, None))"

text \<open>
  \<^verbatim>\<open>DictReader\<close> on a table: the first row is the header, rows without cells are skipped,
  and every other row becomes \<^verbatim>\<open>dict(zip(fieldnames, row))\<close>. The reader raises on a cell
  of more than \<^verbatim>\<open>csv.field_size_limit()\<close> characters, 131072 unless changed: in the header
  that is before \<^verbatim>\<open>load_csv\<close> has assigned anything, in a later row it is after the
  columns were assigned. A row shorter or longer than the header would get \<^verbatim>\<open>None\<close>
  values or a \<^verbatim>\<open>None\<close> key, which a \<^verbatim>\<open>Dict[str, str]\<close> does not hold: such a table is
  outside the model and the result is \<open>None\<close>.

  \<^verbatim>\<open>save_csv\<close> encodes the file as \<^verbatim>\<open>utf-8\<close> and \<^verbatim>\<open>load_csv\<close> decodes it as \<^verbatim>\<open>utf-8-sig\<close>,
  which drops a character U+FEFF at the very start of the file. The characters of the
  model are the code points below 256, every one of which both encodings write and read
  back unchanged; a first column name that starts with U+FEFF, which would come back
  without it, is not a string of the model.
\<close>

definition field_size_limit :: nat where
  "field_size_limit = 131072"

definition oversized :: "string list \<Rightarrow> bool" where
  "oversized row = list_ex (\<lambda>cell. field_size_limit < length cell) row"

definition dict_of_zip :: "string list \<Rightarrow> string list \<Rightarrow> card" where
  "dict_of_zip ks vs = foldl (\<lambda>d kv. dict_set d (fst kv) (snd kv)) [] (zip ks vs)"

definition DictReader_read :: "csv_table \<Rightarrow> csv_read option" where
  "DictReader_read table =
     (case table of
        [] \<Rightarrow> Some NoHeader
      | fieldnames # rows \<Rightarrow>
          if oversized fieldnames then Some OpenFailed
          else (let rows = filter (\<lambda>r. r \<noteq> []) rows
                in if list_ex oversized rows then Some (HeaderThenError fieldnames)
                   else if list_all (\<lambda>r. length r = length fieldnames) rows
                        then Some (Parsed fieldnames (map (dict_of_zip fieldnames) rows))
                        else None))"

text \<open>Saving to a writable file and loading what was written.\<close>

definition save_then_load :: "csv_manager \<Rightarrow> string \<Rightarrow> (csv_manager \<times> bool) option" where
  "save_then_load m fp =
     (case save_csv m fp True of
        (m1, ok, Some table) \<Rightarrow>
          (case DictReader_read table of
             Some src \<Rightarrow> Some (load_csv m1 fp src)
           | None \<Rightarrow> None)
      | (m1, ok, None) \<Rightarrow> None)"

text \<open>
  \<^verbatim>\<open>load_card_parameters_file\<close>: the lines of the file are the input (\<open>None\<close> when reading
  raised). \<^verbatim>\<open>line.partition('=')\<close> splits at the first equals sign.
\<close>

definition startswith_hash :: "string \<Rightarrow> bool" where
  "startswith_hash s = (case s of [] \<Rightarrow> False | c # cs \<Rightarrow> c = CHR ''#'')"

definition partition_eq :: "string \<Rightarrow> string \<times> string" where
  "partition_eq s =
     (takeWhile (\<lambda>c. c \<noteq> CHR ''='') s, drop 1 (dropWhile (\<lambda>c. c \<noteq> CHR ''='') s))"

definition parse_line :: "card \<Rightarrow> string \<Rightarrow> card" where
  "parse_line card_data ln =
     (let ln = strip ln
      in if ln = [] \<or> startswith_hash ln then card_data
         else if CHR ''='' \<in> set ln
              then (let kv = partition_eq ln
                    in dict_set card_data (strip (fst kv)) (strip (snd kv)))
              else card_data)"

definition parse_parameters :: "string list \<Rightarrow> card" where
  "parse_parameters lns = foldl parse_line [] lns"

text \<open>\<^verbatim>\<open>for k in card_data: if k not in self.columns: self.columns.append(k)\<close>.\<close>

definition merge_column :: "string list \<Rightarrow> string \<Rightarrow> string list" where
  "merge_column cols k = (if k \<in> set cols then cols else cols @ [k])"

definition merge_columns :: "string list \<Rightarrow> string list \<Rightarrow> string list" where
  "merge_columns cols ks = foldl merge_column cols ks"

definition load_card_parameters_file ::
  "csv_manager \<Rightarrow> string \<Rightarrow> string list option \<Rightarrow> csv_manager \<times> bool" where
  "load_card_parameters_file m fp content =
     (case content of
        None \<Rightarrow> (m, False)
      | Some lns \<Rightarrow>
          (let card_data = parse_parameters lns
           in if card_data \<noteq> []
              then (m\<lparr>cards := cards m @ [card_data],
                      columns := merge_columns (columns m) (dict_keys card_data)\<rparr>, True)
              else (m, False)))"

subsection \<open>Sequences of operations on a batch\<close>

datatype batch_op =
    Load string csv_read
  | ImportParameters string "string list option"
  | Add "card option"
  | Remove int

fun apply_op :: "csv_manager \<Rightarrow> batch_op \<Rightarrow> csv_manager" where
  "apply_op m (Load fp src) = fst (load_csv m fp src)"
| "apply_op m (ImportParameters fp content) = fst (load_card_parameters_file m fp content)"
| "apply_op m (Add card_data) = add_card m card_data"
| "apply_op m (Remove index) = fst (remove_card m index)"

definition run_ops :: "csv_manager \<Rightarrow> batch_op list \<Rightarrow> csv_manager" where
  "run_ops m ops = foldl apply_op m ops"

text \<open>
  The keys that the operations of a sequence merge into the column list, in the order
  the code meets them: the keys of each record imported from a parameter file.
\<close>

fun merged_keys :: "batch_op \<Rightarrow> string list" where
  "merged_keys (ImportParameters fp (Some lns)) = dict_keys (parse_parameters lns)"
| "merged_keys other = []"

text \<open>A sequence of parameter-file imports, removals and additions of the default
  (empty) record: no load and no record supplied by the caller.\<close>

fun merging_op :: "batch_op \<Rightarrow> bool" where
  "merging_op (Load fp src) = False"
| "merging_op (ImportParameters fp content) = True"
| "merging_op (Add None) = True"
| "merging_op (Add (Some c)) = False"
| "merging_op (Remove index) = True"

text \<open>The elements of a list without repetition, each at its first occurrence.\<close>

definition first_seen :: "'a list \<Rightarrow> 'a list" where
  "first_seen xs = rev (remdups (rev xs))"

section \<open>CardManager (managers/card\_manager.py)\<close>

datatype CardType = UNKNOWN | SJS1 | SJA2 | SJA5

text \<open>
  What \<^verbatim>\<open>subprocess.run\<close> does is an input of the model: it returned, the process having
  ended with a return code, its standard output and its standard error (\<open>Completed\<close>);
  it raised \<^verbatim>\<open>TimeoutExpired\<close>, the output not being complete within the timeout; the
  launch raised \<^verbatim>\<open>FileNotFoundError\<close>; or it raised another exception, whose text
  \<^verbatim>\<open>str(e)\<close> is carried. The two exceptions that can come after the launch also carry
  the status with which the process had exited by itself, if it had. With \<^verbatim>\<open>text=True\<close>
  the output of a process that has ended is decoded, and \<^verbatim>\<open>UnicodeDecodeError\<close> is such
  an exception: \<open>OtherException (Some 0) e\<close> is a process that exited with status 0 and
  wrote bytes that cannot be decoded. \<open>TimeoutExpired None\<close> is a process still running at
  the timeout, which \<^verbatim>\<open>run\<close> kills; \<open>TimeoutExpired (Some 0)\<close> is a process that exited
  with status 0 while a descendant kept its output open. An exception of the launch,
  such as \<^verbatim>\<open>PermissionError\<close>, has no process: \<open>OtherException None e\<close>.
\<close>

datatype proc_outcome =
    Completed int string string
  | TimeoutExpired "int option"
  | FileNotFoundError
  | OtherException "int option" string

text \<open>The text of the \<^verbatim>\<open>UnicodeDecodeError\<close> for an output that starts with the byte FF
  (the character 0x27 is the single quote).\<close>

definition undecodable_output_error :: string where
  "undecodable_output_error =
     [CHR 0x27] @ ''utf-8'' @ [CHR 0x27] @ '' codec can'' @ [CHR 0x27]
       @ ''t decode byte 0xff in position 0: invalid start byte''"

text \<open>One invocation of the tool: the command line, the timeout and the working directory.\<close>

record cli_call =
  cmd :: "string list"
  time_limit :: int
  cwd :: string

text \<open>
  The fields of \<^verbatim>\<open>CardManager\<close>, and \<open>cli_log\<close>, which is not a field of the class: it
  records every call of \<^verbatim>\<open>subprocess.run\<close> so that "no tool call" can be stated.
\<close>

record card_manager =
  cli_path :: "string option"
  card_type :: CardType
  authenticated :: bool
  card_info :: card
  cli_log :: "cli_call list"

text \<open>\<^verbatim>\<open>__init__\<close>; the result of \<^verbatim>\<open>_find_cli_tool()\<close> is the parameter.\<close>

definition card_manager_init :: "string option \<Rightarrow> card_manager" where
  "card_manager_init found =
     \<lparr>cli_path = found, card_type = UNKNOWN, authenticated = False, card_info = [], cli_log = []\<rparr>"

text \<open>\<^verbatim>\<open>os.path.join(a, b)\<close> on POSIX, for two components.\<close>

definition path_join :: "string \<Rightarrow> string \<Rightarrow> string" where
  "path_join a b =
     (if b \<noteq> [] \<and> hd b = CHR ''/'' then b
      else if a = [] \<or> last a = CHR ''/'' then a @ b
      else a @ ''/'' @ b)"

definition run_cli ::
  "card_manager \<Rightarrow> string \<Rightarrow> string list \<Rightarrow> int \<Rightarrow> proc_outcome \<Rightarrow> card_manager \<times> bool \<times> string" where
  "run_cli m script args tmo outcome =
     (case cli_path m of
        None \<Rightarrow>
          (m, False,
           ''sysmo-usim-tool not found. Set SYSMO_USIM_TOOL_PATH or place it next to SimGUI.'')
      | Some root \<Rightarrow>
          (let command = [''python3'', path_join root script] @ args;
               m = m\<lparr>cli_log := cli_log m @ [\<lparr>cmd = command, time_limit = tmo, cwd = root\<rparr>]\<rparr>
           in case outcome of
                Completed returncode out err \<Rightarrow> (m, returncode = 0, strip (out @ err))
              | TimeoutExpired status \<Rightarrow> (m, False, ''Command timed out'')
              | FileNotFoundError \<Rightarrow> (m, False, ''Script not found: '' @ script)
              | OtherException status e \<Rightarrow> (m, False, e)))"


text \<open>\<^verbatim>\<open>authenticate(adm1, force)\<close>: \<open>force\<close> is a parameter the body never reads.\<close>

definition authenticate :: "card_manager \<Rightarrow> string \<Rightarrow> bool \<Rightarrow> card_manager \<times> bool \<times> string" where
  "authenticate m adm1 force =
     (if adm1 = [] \<or> length adm1 \<noteq> 8
      then (m, False, ''ADM1 must be exactly 8 characters'')
      else (m\<lparr>authenticated := True\<rparr>, True, ''Authentication successful''))"

definition read_card_data :: "card_manager \<Rightarrow> card option" where
  "read_card_data m =
     (if \<not> authenticated m then None
      else if card_info m \<noteq> [] then Some (card_info m) else None)"

definition program_card :: "card_manager \<Rightarrow> card \<Rightarrow> bool \<times> string" where
  "program_card m card_data =
     (if \<not> authenticated m then (False, ''Not authenticated'')
      else (True, ''Card programmed successfully (stub)''))"

definition verify_card :: "card_manager \<Rightarrow> card \<Rightarrow> bool \<times> string list" where
  "verify_card m expected =
     (if \<not> authenticated m then (False, [''Not authenticated'']) else (True, []))"

definition get_remaining_attempts :: "card_manager \<Rightarrow> int option" where
  "get_remaining_attempts m = Some 3"

definition disconnect :: "card_manager \<Rightarrow> card_manager" where
  "disconnect m = m\<lparr>authenticated := False, card_type := UNKNOWN, card_info := []\<rparr>"

text \<open>
  The status with which the spawned process exited by itself, if it did: a process that
  was not launched or was killed at the timeout has none. \<open>returned\<close> tells whether
  \<^verbatim>\<open>subprocess.run\<close> returned, its output captured and decoded, rather than raised.
\<close>

definition exit_status :: "proc_outcome \<Rightarrow> int option" where
  "exit_status outcome =
     (case outcome of
        Completed returncode out err \<Rightarrow> Some returncode
      | TimeoutExpired status \<Rightarrow> status
      | FileNotFoundError \<Rightarrow> None
      | OtherException status e \<Rightarrow> status)"

definition returned :: "proc_outcome \<Rightarrow> bool" where
  "returned outcome =
     (case outcome of
        Completed returncode out err \<Rightarrow> True
      | TimeoutExpired status \<Rightarrow> False
      | FileNotFoundError \<Rightarrow> False
      | OtherException status e \<Rightarrow> False)"

section \<open>ADM1Dialog (dialogs/adm1\_dialog.py)\<close>

text \<open>
  The state of the dialog that the handlers read and write: the constructor's
  \<^verbatim>\<open>remaining_attempts\<close>, the result \<^verbatim>\<open>adm1_value\<close>, the variable behind the force
  checkbox, the text of the entry, whether the window was destroyed, and whether
  \<^verbatim>\<open>_create_widgets\<close> made the warning banner and the force checkbox.
\<close>

record adm1_dialog =
  remaining_attempts :: int
  adm1_value :: "string option"
  force_auth :: bool
  entry_text :: string
  destroyed :: bool
  warning_banner :: bool
  force_checkbox :: bool

definition adm1_dialog_init :: "int \<Rightarrow> adm1_dialog" where
  "adm1_dialog_init remaining =
     \<lparr>remaining_attempts = remaining, adm1_value = None, force_auth = False,
      entry_text = [], destroyed = False,
      warning_banner = (remaining < 3), force_checkbox = (remaining < 3)\<rparr>"

datatype message_box = ShowError | AskYesNo

text \<open>
  \<^verbatim>\<open>_on_ok\<close>; \<open>answer\<close> is what the user replies if \<^verbatim>\<open>askyesno\<close> is shown. The second
  component lists the message boxes shown.
\<close>

definition on_ok :: "adm1_dialog \<Rightarrow> bool \<Rightarrow> adm1_dialog \<times> message_box list" where
  "on_ok d answer =
     (let v = entry_text d
      in if length v \<noteq> 8 \<or> \<not> isdigit v then (d, [ShowError])
         else if remaining_attempts d < 3 \<and> \<not> force_auth d
              then (if \<not> answer then (d, [AskYesNo])
                    else (d\<lparr>adm1_value := Some v, destroyed := True\<rparr>, [AskYesNo]))
              else (d\<lparr>adm1_value := Some v, destroyed := True\<rparr>, []))"

text \<open>
  The decision the dialog takes on a well-formed key, in the three words of the
  specification: \<open>Blocked\<close> when the key is not accepted even if the user confirms,
  \<open>RequiresConfirmation\<close> when the confirmation box is shown, \<open>Allowed\<close> when the key is
  accepted without it.
\<close>

datatype guard_decision = Allowed | RequiresConfirmation | Blocked

definition attempt_guard :: "adm1_dialog \<Rightarrow> guard_decision" where
  "attempt_guard d =
     (let confirmed = on_ok d True
      in if adm1_value (fst confirmed) = None then Blocked
         else if AskYesNo \<in> set (snd confirmed) then RequiresConfirmation
         else Allowed)"

definition mayAttempt :: "int \<Rightarrow> bool \<Rightarrow> guard_decision" where
  "mayAttempt remaining force =
     attempt_guard ((adm1_dialog_init remaining)\<lparr>force_auth := force, entry_text := ''12345678''\<rparr>)"

section \<open>Rendering of numbers and messages\<close>

lemma of_char_digit_char: "d < 10 \<Longrightarrow> (of_char (digit_char d) :: nat) = 48 + d"
  by (simp add: digit_char_def)

lemma ascii_digit_digit_char: "d < 10 \<Longrightarrow> ascii_digit (digit_char d)"
  by (simp add: ascii_digit_def of_char_digit_char)

lemma str_of_nat_digits: "list_all ascii_digit (str_of_nat n)"
proof (induction n rule: str_of_nat.induct)
  case (1 n)
  show ?case
  proof (cases "n < 10")
    case True
    then show ?thesis by (subst str_of_nat.simps) (simp add: ascii_digit_digit_char)
  next
    case False
    with 1 show ?thesis by (subst str_of_nat.simps) (simp add: ascii_digit_digit_char)
  qed
qed

lemma nat_of_str_of_nat: "nat_of_str (str_of_nat n) = n"
proof (induction n rule: str_of_nat.induct)
  case (1 n)
  show ?case
  proof (cases "n < 10")
    case True
    then show ?thesis by (subst str_of_nat.simps) (simp add: nat_of_str_def of_char_digit_char)
  next
    case False
    with 1 have "nat_of_str (str_of_nat (n div 10)) = n div 10" by simp
    with False show ?thesis
      by (subst str_of_nat.simps) (simp add: nat_of_str_def of_char_digit_char)
  qed
qed

lemma str_of_nat_inj: "str_of_nat a = str_of_nat b \<Longrightarrow> a = b"
  by (metis nat_of_str_of_nat)

lemma digits_split_unique:
  assumes "list_all P a" "list_all P b" "\<not> P x" "\<not> P y" "a @ x # c = b @ y # d"
  shows "a = b \<and> x # c = y # d"
proof -
  have "takeWhile P (a @ x # c) = a" using assms(1,3)
    by (simp add: takeWhile_tail list_all_iff)
  moreover have "takeWhile P (b @ y # d) = b" using assms(2,4)
    by (simp add: takeWhile_tail list_all_iff)
  ultimately have "a = b" using assms(5) by simp
  with assms(5) show ?thesis by simp
qed

lemma row_msg_inj: "row_msg r1 rule1 = row_msg r2 rule2 \<longleftrightarrow> r1 = r2 \<and> rule1 = rule2"
proof
  assume "row_msg r1 rule1 = row_msg r2 rule2"
  then have e: "str_of_nat r1 @ CHR '':'' # (CHR '' '' # rule1) = str_of_nat r2 @ CHR '':'' # (CHR '' '' # rule2)"
    by (simp add: row_msg_def)
  have nd: "\<not> ascii_digit CHR '':''" by (simp add: ascii_digit_def)
  from digits_split_unique[OF str_of_nat_digits str_of_nat_digits nd nd e]
  show "r1 = r2 \<and> rule1 = rule2" by (auto dest: str_of_nat_inj)
qed simp










section \<open>Validation of a batch\<close>

lemma if_app: "(if P then xs @ ys else xs) = xs @ (if P then ys else [])"
  by simp

lemma if_nest: "(if P then (if Q then a else b) else b) = (if P \<and> Q then a else b)"
  by simp

lemma validate_row_alt:
  "validate_row row c errs = ((((errs
     @ (if imsi_cond c then [row_msg row ''IMSI must be 6-15 digits''] else []))
     @ (if iccid_cond c then [row_msg row ''ICCID must be 10-20 digits''] else []))
     @ (if hex_cond ''Ki'' c then [row_msg row ''Ki must be 32 hex chars''] else []))
     @ (if hex_cond ''OPc'' c then [row_msg row ''OPc must be 32 hex chars''] else []))
     @ (if adm1_cond c then [row_msg row ''ADM1 must be 8 chars''] else [])"
  unfolding validate_row_def imsi_cond_def iccid_cond_def hex_cond_def adm1_cond_def
  by (simp only: Let_def if_app if_nest)

lemma set_validate_row:
  "set (validate_row row c errs) = set errs \<union> set (validate_row row c [])"
  by (simp only: validate_row_alt set_append append_Nil Un_assoc)

lemma set_validate_loop:
  "set (validate_loop i cs errs) =
     set errs \<union> (\<Union>j \<in> {..<length cs}. set (validate_row (i + j + 1) (cs ! j) []))"
proof (induction cs arbitrary: i errs)
  case Nil
  then show ?case by simp
next
  case (Cons c cs)
  have "(\<Union>j \<in> {..<length (c # cs)}. set (validate_row (i + j + 1) ((c # cs) ! j) []))
      = set (validate_row (i + 1) c []) \<union> (\<Union>j \<in> {..<length cs}. set (validate_row (i + 1 + j + 1) (cs ! j) []))"
    by (simp add: lessThan_Suc_eq_insert_0 image_image)
  moreover have "set (validate_row (i + 1) c errs) = set errs \<union> set (validate_row (i + 1) c [])"
    by (rule set_validate_row)
  ultimately show ?case
    by (simp only: validate_loop.simps Cons.IH Un_assoc)
qed

lemma char_of_of_char_nat: "char_of (of_char c :: nat) = c"
  by simp

lemma in_hex_alphabet_iff: "in_hex_alphabet c = is_hex_digit c"
proof
  assume "in_hex_alphabet c"
  then show "is_hex_digit c"
    by (auto simp: in_hex_alphabet_def is_hex_digit_def)
next
  assume h: "is_hex_digit c"
  define n where "n = (of_char c :: nat)"
  have c: "c = char_of n" by (simp add: n_def)
  from h have "n \<in> {48,49,50,51,52,53,54,55,56,57,65,66,67,68,69,70,97,98,99,100,101,102}"
    unfolding is_hex_digit_def Let_def n_def[symmetric] by (simp; arith)
  then show "in_hex_alphabet c"
    unfolding c in_hex_alphabet_def by (elim insertE emptyE; simp add: char_of_eq_iff)
qed

lemma isdigit_char_iff: "isdigit_char c \<longleftrightarrow> is_decimal_digit c \<or> is_superscript_digit c"
proof
  assume h: "isdigit_char c"
  define n where "n = (of_char c :: nat)"
  have c: "c = char_of n" by (simp add: n_def)
  from h have "n \<in> {48,49,50,51,52,53,54,55,56,57,178,179,185}"
    unfolding isdigit_char_def char_code_def Let_def n_def[symmetric] by (simp; arith)
  then show "is_decimal_digit c \<or> is_superscript_digit c"
    unfolding c is_decimal_digit_def is_superscript_digit_def
    by (elim insertE emptyE; simp add: char_of_eq_iff)
next
  assume "is_decimal_digit c \<or> is_superscript_digit c"
  then show "isdigit_char c"
    by (auto simp: is_decimal_digit_def is_superscript_digit_def isdigit_char_def char_code_def)
qed

lemma list_all_isdigit_char:
  "list_all (\<lambda>x. \<not> is_superscript_digit x) v \<Longrightarrow> list_all isdigit_char v = list_all is_decimal_digit v"
  by (induction v) (auto simp: isdigit_char_iff)

lemma remove_spaces_eq: "remove_spaces v = without_spaces v"
  by (induction v) (simp_all add: remove_spaces_def str_replace_char_def without_spaces_def)

lemma imsi_cond_iff: "no_superscript_digit c ''IMSI'' \<Longrightarrow> imsi_cond c = imsi_defect c"
  by (auto simp: imsi_cond_def imsi_defect_def no_superscript_digit_def dict_get_def isdigit_def
        list_all_isdigit_char split: option.splits)

lemma iccid_cond_iff: "no_superscript_digit c ''ICCID'' \<Longrightarrow> iccid_cond c = iccid_defect c"
  by (auto simp: iccid_cond_def iccid_defect_def no_superscript_digit_def dict_get_def isdigit_def
        list_all_isdigit_char split: option.splits)

lemma hex_cond_iff: "hex_cond k c = key_defect k c"
  by (auto simp: hex_cond_def key_defect_def dict_get_def remove_spaces_eq
        in_hex_alphabet_iff[abs_def] split: option.splits)

lemma adm1_cond_iff: "adm1_cond c = adm1_defect c"
  by (auto simp: adm1_cond_def adm1_defect_def dict_get_def split: option.splits)

lemma mem_validate_row:
  "row_msg r R \<in> set (validate_row row c []) \<longleftrightarrow>
     r = row \<and> ((R = ''IMSI must be 6-15 digits'' \<and> imsi_cond c)
       \<or> (R = ''ICCID must be 10-20 digits'' \<and> iccid_cond c)
       \<or> (R = ''Ki must be 32 hex chars'' \<and> key_defect ''Ki'' c)
       \<or> (R = ''OPc must be 32 hex chars'' \<and> key_defect ''OPc'' c)
       \<or> (R = ''ADM1 must be 8 chars'' \<and> adm1_defect c))"
  by (auto simp: validate_row_alt row_msg_inj hex_cond_iff adm1_cond_iff)

lemma mem_validate_all:
  assumes "i < length (cards m)"
  shows "row_msg (i + 1) R \<in> set (validate_all m) \<longleftrightarrow> row_msg (i + 1) R \<in> set (validate_row (i + 1) (cards m ! i) [])"
proof -
  have "row_msg (i + 1) R \<in> set (validate_all m) \<longleftrightarrow>
      (\<exists>j<length (cards m). row_msg (i + 1) R \<in> set (validate_row (j + 1) (cards m ! j) []))"
    by (simp add: validate_all_def set_validate_loop Bex_def)
  also have "\<dots> \<longleftrightarrow> row_msg (i + 1) R \<in> set (validate_row (i + 1) (cards m ! i) [])"
    using assms by (auto simp: mem_validate_row)
  finally show ?thesis .
qed

text \<open>
  What \<open>validate_all\<close> does for every record of a batch (position \<open>i\<close>, row number
  \<open>i + 1\<close>). The Ki, OPc and ADM1 messages are reported exactly when the specification's
  rule is broken. The IMSI and ICCID messages are reported exactly when the field is
  non-empty and either \<^verbatim>\<open>str.isdigit\<close> rejects it or its length is out of range; that is
  the specification's rule for every field that holds no superscript digit.
\<close>

lemma validate_all_flags:
  assumes "i < length (cards m)"
  shows "(row_msg (i + 1) ''IMSI must be 6-15 digits'' \<in> set (validate_all m) \<longleftrightarrow> imsi_cond (cards m ! i))
    \<and> (row_msg (i + 1) ''ICCID must be 10-20 digits'' \<in> set (validate_all m) \<longleftrightarrow> iccid_cond (cards m ! i))
    \<and> (row_msg (i + 1) ''Ki must be 32 hex chars'' \<in> set (validate_all m) \<longleftrightarrow> key_defect ''Ki'' (cards m ! i))
    \<and> (row_msg (i + 1) ''OPc must be 32 hex chars'' \<in> set (validate_all m) \<longleftrightarrow> key_defect ''OPc'' (cards m ! i))
    \<and> (row_msg (i + 1) ''ADM1 must be 8 chars'' \<in> set (validate_all m) \<longleftrightarrow> adm1_defect (cards m ! i))"
  using mem_validate_all[OF assms] by (simp add: mem_validate_row)

lemma validate_all_flags_decimal_input:
  assumes "i < length (cards m)"
    and "no_superscript_digit (cards m ! i) ''IMSI''"
    and "no_superscript_digit (cards m ! i) ''ICCID''"
  shows "(row_msg (i + 1) ''IMSI must be 6-15 digits'' \<in> set (validate_all m) \<longleftrightarrow> imsi_defect (cards m ! i))
    \<and> (row_msg (i + 1) ''ICCID must be 10-20 digits'' \<in> set (validate_all m) \<longleftrightarrow> iccid_defect (cards m ! i))
    \<and> (row_msg (i + 1) ''Ki must be 32 hex chars'' \<in> set (validate_all m) \<longleftrightarrow> key_defect ''Ki'' (cards m ! i))
    \<and> (row_msg (i + 1) ''OPc must be 32 hex chars'' \<in> set (validate_all m) \<longleftrightarrow> key_defect ''OPc'' (cards m ! i))
    \<and> (row_msg (i + 1) ''ADM1 must be 8 chars'' \<in> set (validate_all m) \<longleftrightarrow> adm1_defect (cards m ! i))"
  using validate_all_flags[OF assms(1)] imsi_cond_iff[OF assms(2)] iccid_cond_iff[OF assms(3)]
  by simp

lemma validate_all_flags_decimal_input_example:
  "row_msg (0 + 1) ''IMSI must be 6-15 digits''
       \<in> set (validate_all \<lparr>cards = [[(''IMSI'', ''12345''), (''Ki'', ''00 11 zz''), (''ADM1'', [])]],
                              columns = STANDARD_COLUMNS, filepath = None\<rparr>)
   \<and> row_msg (0 + 1) ''Ki must be 32 hex chars''
       \<in> set (validate_all \<lparr>cards = [[(''IMSI'', ''12345''), (''Ki'', ''00 11 zz''), (''ADM1'', [])]],
                              columns = STANDARD_COLUMNS, filepath = None\<rparr>)
   \<and> row_msg (0 + 1) ''ADM1 must be 8 chars''
       \<notin> set (validate_all \<lparr>cards = [[(''IMSI'', ''12345''), (''Ki'', ''00 11 zz''), (''ADM1'', [])]],
                              columns = STANDARD_COLUMNS, filepath = None\<rparr>)
   \<and> row_msg (0 + 1) ''OPc must be 32 hex chars''
       \<notin> set (validate_all \<lparr>cards = [[(''IMSI'', ''12345''), (''Ki'', ''00 11 zz''), (''ADM1'', [])]],
                              columns = STANDARD_COLUMNS, filepath = None\<rparr>)"
  using validate_all_flags_decimal_input
    [of 0 "\<lparr>cards = [[(''IMSI'', ''12345''), (''Ki'', ''00 11 zz''), (''ADM1'', [])]],
             columns = STANDARD_COLUMNS, filepath = None\<rparr>"]
  by (simp add: imsi_defect_def adm1_defect_def key_defect_def no_superscript_digit_def
        is_superscript_digit_def is_decimal_digit_def without_spaces_def)

text \<open>
  Claim C1. The claim says that \<open>validate_all\<close> flags an IMSI that is non-empty and not
  all-digit. The code tests the digits with \<^verbatim>\<open>str.isdigit\<close>, which also accepts the
  superscript digits. The six-character IMSI made of \<^verbatim>\<open>12345\<close> and the superscript two
  (U+00B2) is not all-digit, so the rule of the specification calls it defective, and
  \<open>validate_all\<close> reports nothing for it; the same IMSI ending in a letter is reported.
  The Ki check of the same function compares against the explicit alphabet of the
  hexadecimal characters and has no such gap.
\<close>

theorem validate_all_accepts_superscript_digit:
  "imsi_defect [(''IMSI'', ''12345'' @ [CHR 0xB2])]
   \<and> validate_all \<lparr>cards = [[(''IMSI'', ''12345'' @ [CHR 0xB2])]],
                   columns = STANDARD_COLUMNS, filepath = None\<rparr> = []
   \<and> imsi_defect [(''IMSI'', ''12345a'')]
   \<and> validate_all \<lparr>cards = [[(''IMSI'', ''12345a'')]],
                   columns = STANDARD_COLUMNS, filepath = None\<rparr>
       = [''Row 1: IMSI must be 6-15 digits'']"
  by (simp add: imsi_defect_def is_decimal_digit_def validate_all_def validate_row_def
        dict_get_def isdigit_def isdigit_char_def char_code_def row_msg_def
        str_of_nat.simps digit_char_def char_of_eq_iff Let_def)

section \<open>Access by index\<close>

lemma not_in_range: "index < 0 \<or> int (length xs) \<le> index \<Longrightarrow> \<not> in_range index xs"
  by (auto simp: in_range_def)

text \<open>
  Claim C7. For every index outside the range from 0 up to the number of records,
  \<open>remove_card\<close> answers False and leaves the manager (so the record sequence) as it was,
  \<open>update_card\<close> answers False and changes no record, and \<open>get_card\<close> answers None. The
  three functions have no failing branch: for an index in range \<^verbatim>\<open>pop\<close>, the item
  assignment and the indexing are all defined.
\<close>

theorem out_of_range_is_not_found:
  assumes "index < 0 \<or> int (length (cards m)) \<le> index"
  shows "remove_card m index = (m, False)
    \<and> update_card m index k v = (m, False)
    \<and> get_card m index = None"
  using not_in_range[OF assms]
  by (simp add: remove_card_def update_card_def get_card_def)

theorem out_of_range_is_not_found_witness:
  "int (length (cards \<lparr>cards = [[(''IMSI'', ''001010000000001'')]],
                       columns = STANDARD_COLUMNS, filepath = None\<rparr>)) \<le> 1
   \<and> remove_card \<lparr>cards = [[(''IMSI'', ''001010000000001'')]],
                   columns = STANDARD_COLUMNS, filepath = None\<rparr> 1
       = (\<lparr>cards = [[(''IMSI'', ''001010000000001'')]],
           columns = STANDARD_COLUMNS, filepath = None\<rparr>, False)
   \<and> update_card \<lparr>cards = [[(''IMSI'', ''001010000000001'')]],
                   columns = STANDARD_COLUMNS, filepath = None\<rparr> 1 ''Ki'' ''00''
       = (\<lparr>cards = [[(''IMSI'', ''001010000000001'')]],
           columns = STANDARD_COLUMNS, filepath = None\<rparr>, False)
   \<and> get_card \<lparr>cards = [[(''IMSI'', ''001010000000001'')]],
                columns = STANDARD_COLUMNS, filepath = None\<rparr> 1 = None"
  using out_of_range_is_not_found
    [of 1 "\<lparr>cards = [[(''IMSI'', ''001010000000001'')]],
             columns = STANDARD_COLUMNS, filepath = None\<rparr>" "''Ki''" "''00''"]
  by simp



section \<open>The external tool runner\<close>

lemma run_cli_resolved:
  assumes "cli_path m = Some root"
  shows "snd (run_cli m script args tmo outcome) =
     (case outcome of
        Completed returncode out err \<Rightarrow> (returncode = 0, strip (out @ err))
      | TimeoutExpired status \<Rightarrow> (False, ''Command timed out'')
      | FileNotFoundError \<Rightarrow> (False, ''Script not found: '' @ script)
      | OtherException status e \<Rightarrow> (False, e))"
  using assms by (simp add: run_cli_def Let_def split: proc_outcome.splits)

text \<open>
  Claim C5 says that, with the tool root resolved, the success flag is true iff the
  spawned process exits with status 0. \<^verbatim>\<open>subprocess.run\<close> is called with \<^verbatim>\<open>text=True\<close>: a
  process that exits with status 0 after writing bytes that cannot be decoded makes it
  raise, and the \<^verbatim>\<open>except Exception\<close> branch answers failure with the text of the error.
\<close>

theorem run_cli_undecodable_output_counterexample:
  "exit_status (OtherException (Some 0) undecodable_output_error) = Some 0
   \<and> run_cli (card_manager_init (Some ''/opt/sysmo-usim-tool'')) ''sysmo_isim_sja2.py'' [''--help''] 30
        (OtherException (Some 0) undecodable_output_error)
     = ((card_manager_init (Some ''/opt/sysmo-usim-tool''))
          \<lparr>cli_log := [\<lparr>cmd = [''python3'', ''/opt/sysmo-usim-tool/sysmo_isim_sja2.py'', ''--help''],
                         time_limit = 30, cwd = ''/opt/sysmo-usim-tool''\<rparr>]\<rparr>,
        False,
        undecodable_output_error)"
  by (simp add: exit_status_def run_cli_def card_manager_init_def path_join_def Let_def)

text \<open>
  Claim C5, amended. When the tool root is resolved, the success flag of \<open>run_cli\<close> is
  true iff \<^verbatim>\<open>subprocess.run\<close> returns and the process has exited with status 0, that is
  iff the process exits with status 0 and its output is captured and decoded. A process
  that ended with another status gives failure with the captured text (standard output
  then standard error, stripped); a launch error or any other exception, the decoding
  error of a process that exited with status 0 included, gives failure with the error
  text; and a process that did not end within the timeout gives failure with the output
  \<^verbatim>\<open>Command timed out\<close>.
\<close>

theorem run_cli_success_iff_returned_zero:
  assumes "cli_path m = Some root"
  shows "(fst (snd (run_cli m script args tmo outcome))
            \<longleftrightarrow> returned outcome \<and> exit_status outcome = Some 0)
    \<and> snd (run_cli m script args tmo (Completed returncode out err))
        = (returncode = 0, strip (out @ err))
    \<and> snd (run_cli m script args tmo (TimeoutExpired status)) = (False, ''Command timed out'')
    \<and> snd (run_cli m script args tmo FileNotFoundError)
        = (False, ''Script not found: '' @ script)
    \<and> snd (run_cli m script args tmo (OtherException status e)) = (False, e)"
  by (simp add: run_cli_resolved[OF assms] exit_status_def returned_def
        split: proc_outcome.splits)

theorem run_cli_success_iff_returned_zero_witness:
  "cli_path (card_manager_init (Some ''/opt/sysmo-usim-tool'')) = Some ''/opt/sysmo-usim-tool''
   \<and> snd (run_cli (card_manager_init (Some ''/opt/sysmo-usim-tool''))
             ''sysmo_isim_sja2.py'' [''--help''] 30 (Completed 0 ''usage: ...'' []))
       = (True, ''usage: ...'')
   \<and> snd (run_cli (card_manager_init (Some ''/opt/sysmo-usim-tool''))
             ''sysmo_isim_sja2.py'' [''--help''] 30 (Completed 2 ''no reader'' []))
       = (False, ''no reader'')
   \<and> snd (run_cli (card_manager_init (Some ''/opt/sysmo-usim-tool''))
             ''sysmo_isim_sja2.py'' [''--help''] 30 (TimeoutExpired None))
       = (False, ''Command timed out'')"
proof -
  have h: "cli_path (card_manager_init (Some ''/opt/sysmo-usim-tool'')) = Some ''/opt/sysmo-usim-tool''"
    by (simp add: card_manager_init_def)
  have s1: "strip ''usage: ...'' = ''usage: ...''"
    by (simp add: strip_def isspace_char_def char_code_def)
  have s2: "strip ''no reader'' = ''no reader''"
    by (simp add: strip_def isspace_char_def char_code_def)
  from run_cli_success_iff_returned_zero
         [OF h, of "''sysmo_isim_sja2.py''" "[''--help'']" 30 _ 0 "''usage: ...''" "[]"]
       run_cli_success_iff_returned_zero
         [OF h, of "''sysmo_isim_sja2.py''" "[''--help'']" 30 _ 2 "''no reader''" "[]"]
  show ?thesis using h by (simp add: s1 s2)
qed

section \<open>Authentication\<close>

text \<open>
  Claim C6. For every key that is not exactly 8 characters long (the empty key included),
  \<open>authenticate\<close> fails with the invalid-input message, makes no tool call (the log of
  calls is as before), and leaves the session as it was, so that it does not become
  authenticated.
\<close>

theorem authenticate_rejects_wrong_length:
  assumes "length adm1 \<noteq> 8"
  shows "authenticate m adm1 force = (m, False, ''ADM1 must be exactly 8 characters'')
    \<and> cli_log (fst (authenticate m adm1 force)) = cli_log m
    \<and> authenticated (fst (authenticate m adm1 force)) = authenticated m"
  using assms by (simp add: authenticate_def)

theorem authenticate_rejects_wrong_length_witness:
  "length ''1234'' \<noteq> 8
   \<and> authenticate (card_manager_init None) ''1234'' False
       = (card_manager_init None, False, ''ADM1 must be exactly 8 characters'')
   \<and> length '''' \<noteq> 8
   \<and> authenticate (card_manager_init None) '''' True
       = (card_manager_init None, False, ''ADM1 must be exactly 8 characters'')"
  using authenticate_rejects_wrong_length [of "''1234''" "card_manager_init None" False]
        authenticate_rejects_wrong_length [of "''''" "card_manager_init None" True]
  by simp

lemma authenticate_valid_key_succeeds:
  assumes "length adm1 = 8"
  shows "authenticate m adm1 force = (m\<lparr>authenticated := True\<rparr>, True, ''Authentication successful'')
    \<and> cli_log (fst (authenticate m adm1 force)) = cli_log m
    \<and> get_remaining_attempts (fst (authenticate m adm1 force)) = get_remaining_attempts m
    \<and> get_remaining_attempts m = Some 3"
  using assms by (auto simp: authenticate_def get_remaining_attempts_def)


section \<open>Reading the card data\<close>

text \<open>
  Claim C8 says that \<open>read_card_data\<close> of an authenticated session returns the cached
  identity mapping. On a session authenticated from a fresh manager the cached mapping
  is empty and the result is None, not the mapping.
\<close>

theorem read_card_data_empty_counterexample:
  "authenticated (fst (authenticate (card_manager_init None) ''12345678'' False))
   \<and> read_card_data (fst (authenticate (card_manager_init None) ''12345678'' False)) = None
   \<and> read_card_data (fst (authenticate (card_manager_init None) ''12345678'' False))
       \<noteq> Some (card_info (fst (authenticate (card_manager_init None) ''12345678'' False)))"
  by (simp add: read_card_data_def authenticate_def card_manager_init_def)

text \<open>
  Claim C8, amended. \<open>read_card_data\<close> of an authenticated session whose cached mapping
  is not empty returns that mapping; of an authenticated session whose cached mapping
  is empty it returns None; and of a session that is not authenticated it returns None
  rather than data.
\<close>

theorem read_card_data_cases:
  "(authenticated m \<and> card_info m \<noteq> [] \<longrightarrow> read_card_data m = Some (card_info m))
   \<and> (authenticated m \<and> card_info m = [] \<longrightarrow> read_card_data m = None)
   \<and> (\<not> authenticated m \<longrightarrow> read_card_data m = None)"
  by (simp add: read_card_data_def)

theorem read_card_data_cases_witness:
  "authenticated ((card_manager_init None)
       \<lparr>authenticated := True, card_info := [(''IMSI'', ''001010000000001'')]\<rparr>)
   \<and> card_info ((card_manager_init None)
       \<lparr>authenticated := True, card_info := [(''IMSI'', ''001010000000001'')]\<rparr>) \<noteq> []
   \<and> read_card_data ((card_manager_init None)
       \<lparr>authenticated := True, card_info := [(''IMSI'', ''001010000000001'')]\<rparr>)
       = Some [(''IMSI'', ''001010000000001'')]
   \<and> \<not> authenticated (card_manager_init None)
   \<and> read_card_data (card_manager_init None) = None"
  using read_card_data_cases
          [of "(card_manager_init None)
                 \<lparr>authenticated := True, card_info := [(''IMSI'', ''001010000000001'')]\<rparr>"]
        read_card_data_cases [of "card_manager_init None"]
  by (simp add: card_manager_init_def)

section \<open>The attempt guard of the ADM1 dialog\<close>

lemma isdigit_sample_key: "isdigit ''12345678''"
  by (simp add: isdigit_def isdigit_char_def char_code_def)

lemma attempt_guard_valid_entry:
  assumes "length (entry_text d) = 8" "isdigit (entry_text d)"
  shows "attempt_guard d =
     (if remaining_attempts d < 3 \<and> \<not> force_auth d then RequiresConfirmation else Allowed)"
  using assms by (simp add: attempt_guard_def on_ok_def Let_def)

lemma mayAttempt_eq:
  "mayAttempt remaining force =
     (if remaining < 3 \<and> \<not> force then RequiresConfirmation else Allowed)"
  unfolding mayAttempt_def
  by (subst attempt_guard_valid_entry) (simp_all add: isdigit_sample_key adm1_dialog_init_def)

text \<open>
  Claim C2 says that no attempt is allowed once the remaining attempts are 0 or fewer,
  whatever the force flag. The dialog has no such branch: with 0 remaining attempts and
  the force box ticked the key is accepted without any question.
\<close>

theorem mayAttempt_zero_forced_counterexample:
  "mayAttempt 0 True = Allowed \<and> mayAttempt 0 True \<noteq> Blocked"
  by (simp add: mayAttempt_eq)

text \<open>
  Claim C2, amended. With 3 or more remaining attempts the decision is \<open>Allowed\<close>; with
  fewer than 3 (zero and negative values included) it is \<open>RequiresConfirmation\<close> when
  the force flag is false and \<open>Allowed\<close> when it is true; no input gives \<open>Blocked\<close>, and
  in particular the decision for 0 attempts with force is \<open>Allowed\<close>.
\<close>

theorem mayAttempt_decision:
  "(3 \<le> remaining \<longrightarrow> mayAttempt remaining force = Allowed)
   \<and> (remaining < 3 \<longrightarrow> mayAttempt remaining False = RequiresConfirmation
                        \<and> mayAttempt remaining True = Allowed)
   \<and> mayAttempt remaining force \<noteq> Blocked"
  by (simp add: mayAttempt_eq)

theorem mayAttempt_decision_witness:
  "(3::int) \<le> 5 \<and> mayAttempt 5 False = Allowed
   \<and> (1::int) < 3 \<and> mayAttempt 1 False = RequiresConfirmation \<and> mayAttempt 1 True = Allowed
   \<and> (0::int) < 3 \<and> mayAttempt 0 False = RequiresConfirmation"
  using mayAttempt_decision [of 5 False] mayAttempt_decision [of 1 False]
        mayAttempt_decision [of 0 False]
  by simp

section \<open>The column list\<close>

lemma merge_columns_snoc: "merge_columns cols (ks @ [k]) = merge_column (merge_columns cols ks) k"
  by (simp add: merge_columns_def)

lemma first_seen_snoc:
  "first_seen (xs @ [x]) = (if x \<in> set xs then first_seen xs else first_seen xs @ [x])"
  by (simp add: first_seen_def)

lemma set_first_seen: "set (first_seen xs) = set xs"
  by (simp add: first_seen_def)

lemma distinct_first_seen: "distinct (first_seen xs)"
  by (simp add: first_seen_def)

lemma merge_columns_closed:
  "merge_columns cols ks = cols @ first_seen (filter (\<lambda>k. k \<notin> set cols) ks)"
proof (induction ks rule: rev_induct)
  case Nil
  then show ?case by (simp add: merge_columns_def first_seen_def)
next
  case (snoc k ks)
  then show ?case
    by (auto simp: merge_columns_snoc merge_column_def first_seen_snoc set_first_seen)
qed

lemma merge_columns_append:
  "merge_columns cols (ks @ ks') = merge_columns (merge_columns cols ks) ks'"
  by (simp add: merge_columns_def)

lemma merge_columns_Nil: "merge_columns cols [] = cols"
  by (simp add: merge_columns_def)

lemma columns_apply_op:
  "merging_op op \<Longrightarrow> columns (apply_op m op) = merge_columns (columns m) (merged_keys op)"
proof (cases op)
  case (Load fp src)
  assume "merging_op op" with Load show ?thesis by simp
next
  case (ImportParameters fp content)
  then show ?thesis
    by (cases content)
       (auto simp: load_card_parameters_file_def Let_def merge_columns_Nil dict_keys_def)
next
  case (Add card_data)
  assume "merging_op op" with Add show ?thesis
    by (cases card_data) (simp_all add: add_card_def merge_columns_Nil)
next
  case (Remove index)
  then show ?thesis by (simp add: remove_card_def merge_columns_Nil)
qed

lemma columns_run_ops:
  "list_all merging_op ops \<Longrightarrow>
     columns (run_ops m ops) = merge_columns (columns m) (concat (map merged_keys ops))"
proof (induction ops arbitrary: m)
  case Nil
  then show ?case by (simp add: run_ops_def merge_columns_Nil)
next
  case (Cons op ops)
  from Cons.prems have a: "merging_op op" and b: "list_all merging_op ops" by simp_all
  have "columns (run_ops m (op # ops)) = columns (run_ops (apply_op m op) ops)"
    by (simp add: run_ops_def)
  also have "\<dots> = merge_columns (columns (apply_op m op)) (concat (map merged_keys ops))"
    by (rule Cons.IH[OF b])
  also have "\<dots> = merge_columns (columns m) (concat (map merged_keys (op # ops)))"
    by (simp add: columns_apply_op[OF a] merge_columns_append)
  finally show ?case .
qed

lemma keys_dict_set: "set (dict_keys (dict_set d k v)) = insert k (set (dict_keys d))"
  by (simp add: dict_keys_def dict_set_def dom_update)

lemma keys_foldl_dict_set:
  "set (dict_keys (foldl (\<lambda>d col. dict_set d col v) d0 cols)) = set (dict_keys d0) \<union> set cols"
  by (induction cols arbitrary: d0) (auto simp: keys_dict_set)

lemma keys_empty_card: "set (dict_keys (empty_card cols)) = set cols"
  using keys_foldl_dict_set[of "[]" "[]" cols] by (simp add: empty_card_def dict_keys_def)

text \<open>
  Claim C4 says that after any sequence of loads, parameter-file imports, additions and
  removals the column list is the union of all record keys ever seen, and that a later
  load never removes a column introduced earlier. \<open>load_csv\<close> replaces the column list
  by the header of the file: the column \<^verbatim>\<open>FOO\<close>, merged in by a parameter-file import,
  is gone after the load of a file whose header is the single column \<^verbatim>\<open>A\<close>.
\<close>

theorem load_replaces_columns_counterexample:
  "''FOO'' \<in> set (columns (run_ops csv_manager_init
       [ImportParameters ''card-parameters.txt'' (Some [''FOO=1''])]))
   \<and> ''FOO'' \<in> set (dict_keys (last (cards (run_ops csv_manager_init
       [ImportParameters ''card-parameters.txt'' (Some [''FOO=1''])]))))
   \<and> columns (run_ops csv_manager_init
       [ImportParameters ''card-parameters.txt'' (Some [''FOO=1'']),
        Load ''batch.csv'' (Parsed [''A''] [[(''A'', ''x'')]])]) = [''A'']"
  by (simp add: run_ops_def load_card_parameters_file_def parse_parameters_def parse_line_def
        strip_def isspace_char_def char_code_def startswith_hash_def partition_eq_def
        dict_set_def merge_columns_def merge_column_def dict_keys_def csv_manager_init_def
        STANDARD_COLUMNS_def load_csv_def Let_def)

text \<open>
  Claim C4, amended. For every sequence of parameter-file imports, removals and
  additions of the default record (no load, no record supplied by the caller), the
  column list afterwards is the column list before, in its order, followed by the keys
  of the imported records that were not yet columns, each once and in first-seen order;
  so the earlier columns are a prefix of the later ones and the column set is the union
  of the earlier columns and the imported keys. Removing a record and adding the default
  record leave the column list unchanged, and the keys of the default record are the
  columns. A load that reads a header replaces the column list by that header.
\<close>

theorem columns_after_merging_ops:
  assumes "list_all merging_op ops"
  shows "columns (run_ops m ops)
           = columns m @ first_seen (filter (\<lambda>k. k \<notin> set (columns m)) (concat (map merged_keys ops)))
    \<and> prefix (columns m) (columns (run_ops m ops))
    \<and> set (columns (run_ops m ops)) = set (columns m) \<union> set (concat (map merged_keys ops))
    \<and> columns (fst (remove_card m index)) = columns m
    \<and> columns (add_card m None) = columns m
    \<and> set (dict_keys (last (cards (add_card m None)))) = set (columns m)
    \<and> columns (fst (load_csv m fp (Parsed fieldnames rows))) = fieldnames"
proof -
  have c: "columns (run_ops m ops)
           = columns m @ first_seen (filter (\<lambda>k. k \<notin> set (columns m)) (concat (map merged_keys ops)))"
    by (simp only: columns_run_ops[OF assms] merge_columns_closed)
  have s: "set (columns (run_ops m ops)) = set (columns m) \<union> set (concat (map merged_keys ops))"
    unfolding c by (auto simp: set_first_seen)
  show ?thesis
    using c s by (simp add: remove_card_def add_card_def load_csv_def keys_empty_card Let_def)
qed

theorem columns_after_merging_ops_witness:
  "list_all merging_op
     [ImportParameters ''a.txt'' (Some [''# card'', ''IMSI = 001010000000001'', ''FOO=1'']),
      Add None, Remove 0,
      ImportParameters ''b.txt'' (Some [''BAR=2'', '''', ''FOO=3''])]
   \<and> columns (run_ops csv_manager_init
     [ImportParameters ''a.txt'' (Some [''# card'', ''IMSI = 001010000000001'', ''FOO=1'']),
      Add None, Remove 0,
      ImportParameters ''b.txt'' (Some [''BAR=2'', '''', ''FOO=3''])])
     = STANDARD_COLUMNS @ [''FOO'', ''BAR'']"
proof -
  have k1: "parse_parameters [''# card'', ''IMSI = 001010000000001'', ''FOO=1'']
      = [(''IMSI'', ''001010000000001''), (''FOO'', ''1'')]"
    by (simp add: parse_parameters_def parse_line_def strip_def isspace_char_def char_code_def
          startswith_hash_def partition_eq_def dict_set_def Let_def)
  have k2: "parse_parameters [''BAR=2'', '''', ''FOO=3''] = [(''BAR'', ''2''), (''FOO'', ''3'')]"
    by (simp add: parse_parameters_def parse_line_def strip_def isspace_char_def char_code_def
          startswith_hash_def partition_eq_def dict_set_def Let_def)
  from columns_after_merging_ops
    [of "[ImportParameters ''a.txt'' (Some [''# card'', ''IMSI = 001010000000001'', ''FOO=1'']),
          Add None, Remove 0,
          ImportParameters ''b.txt'' (Some [''BAR=2'', '''', ''FOO=3''])]" csv_manager_init]
  show ?thesis
    by (simp add: k1 k2 dict_keys_def csv_manager_init_def STANDARD_COLUMNS_def first_seen_def)
qed

section \<open>Saving and loading a batch\<close>

lemma map_of_dict_set: "map_of (dict_set d k v) = (map_of d)(k \<mapsto> v)"
  by (simp add: dict_set_def update_conv')

lemma map_of_foldl_dict_set:
  "map_of (foldl (\<lambda>d kv. dict_set d (fst kv) (snd kv)) d0 kvs) = map_of d0 ++ map_of (rev kvs)"
proof (induction kvs arbitrary: d0)
  case Nil
  then show ?case by simp
next
  case (Cons kv kvs)
  show ?case
    by (simp add: Cons.IH map_of_dict_set map_add_assoc[symmetric] del: map_add_assoc)
       (simp add: map_add_def fun_eq_iff split: option.splits)
qed

lemma map_of_dict_of_zip_row:
  "map_of (dict_of_zip ks (map f ks)) k = (if k \<in> set ks then Some (f k) else None)"
proof -
  have z: "zip ks (map f ks) = map (\<lambda>k. (k, f k)) ks"
    by (induction ks) simp_all
  have "map_of (map (\<lambda>k. (k, f k)) (rev ks)) k = (if k \<in> set ks then Some (f k) else None)"
    by (simp add: map_of_map_restrict restrict_map_def)
  then have "map_of (rev (map (\<lambda>k. (k, f k)) ks)) k = (if k \<in> set ks then Some (f k) else None)"
    by (simp only: rev_map)
  then show ?thesis
    by (simp add: dict_of_zip_def map_of_foldl_dict_set z)
qed

lemma roundtrip_card:
  assumes "set (dict_keys d) = set ks"
  shows "map_of (dict_of_zip ks (DictWriter_row ks d)) = map_of d"
proof
  fix k
  show "map_of (dict_of_zip ks (DictWriter_row ks d)) k = map_of d k"
  proof (cases "k \<in> set ks")
    case True
    with assms have "k \<in> fst ` set d" by (simp add: dict_keys_def)
    then obtain v where "map_of d k = Some v"
      by (metis (no_types, opaque_lifting) domD dom_map_of_conv_image_fst)
    with True show ?thesis
      by (simp add: DictWriter_row_def map_of_dict_of_zip_row dict_get_def)
  next
    case False
    with assms have "k \<notin> fst ` set d" by (simp add: dict_keys_def)
    then have "map_of d k = None" by (simp add: map_of_eq_None_iff)
    with False show ?thesis
      by (simp add: DictWriter_row_def map_of_dict_of_zip_row)
  qed
qed

lemma keys_dict_of_zip_row: "set (dict_keys (dict_of_zip ks (map f ks))) = set ks"
proof -
  have "set (dict_keys (dict_of_zip ks (map f ks))) = dom (map_of (dict_of_zip ks (map f ks)))"
    by (simp add: dict_keys_def dom_map_of_conv_image_fst)
  also have "\<dots> = set ks"
    by (auto simp: dom_def map_of_dict_of_zip_row)
  finally show ?thesis .
qed

lemma read_written_table:
  assumes "cols \<noteq> []"
    and "\<not> oversized cols"
    and "\<forall>d \<in> set ds. \<not> oversized (DictWriter_row cols d)"
  shows "DictReader_read (DictWriter_table cols ds)
     = Some (Parsed cols (map (\<lambda>d. dict_of_zip cols (DictWriter_row cols d)) ds))"
proof -
  have ne: "filter (\<lambda>r. r \<noteq> []) (map (DictWriter_row cols) ds) = map (DictWriter_row cols) ds"
    using assms(1) by (simp add: filter_id_conv DictWriter_row_def)
  have len: "list_all (\<lambda>r. length r = length cols) (map (DictWriter_row cols) ds)"
    by (simp add: list_all_iff DictWriter_row_def)
  have lim: "\<not> list_ex oversized (map (DictWriter_row cols) ds)"
    using assms(3) by (simp add: list_ex_iff)
  show ?thesis
    using assms(2) by (simp add: DictReader_read_def DictWriter_table_def ne len lim comp_def)
qed

lemma not_oversized_columns:
  assumes "\<forall>k \<in> set cols. length k \<le> field_size_limit"
  shows "\<not> oversized cols"
  using assms by (auto simp: oversized_def list_ex_iff)

text \<open>A cell of one character more than the limit of the reader: the file is written,
  and loading it fails after the columns were assigned.\<close>

lemma oversized_field_fails_to_load:
  "save_then_load \<lparr>cards = [[(''A'', replicate 131073 (CHR ''x''))]],
                   columns = [''A''], filepath = None\<rparr> ''batch.csv''
     = Some (\<lparr>cards = [[(''A'', replicate 131073 (CHR ''x''))]],
              columns = [''A''], filepath = Some ''batch.csv''\<rparr>, False)"
  by (simp add: save_then_load_def save_csv_def DictWriter_table_def DictWriter_row_def
        dict_get_def DictReader_read_def oversized_def field_size_limit_def load_csv_def)

text \<open>
  Claim C9 says that saving and then loading reproduces every record with every field,
  extra fields under unknown column names included, and that save drops no field.
  \<open>save_csv\<close> writes the columns of the column list only. A record added with the field
  \<^verbatim>\<open>FOO\<close> to a fresh manager, whose columns are the standard ones, is read back
  without \<^verbatim>\<open>FOO\<close> and with every standard column empty.
\<close>

theorem save_drops_extra_field_counterexample:
  "map_of (last (cards (add_card csv_manager_init (Some [(''FOO'', ''x'')])))) ''FOO'' = Some ''x''
   \<and> save_then_load (add_card csv_manager_init (Some [(''FOO'', ''x'')])) ''batch.csv''
       = Some (\<lparr>cards = [[(''ICCID'', []), (''IMSI'', []), (''Ki'', []), (''OPc'', []),
                          (''ADM1'', []), (''MNC_LENGTH'', []), (''ALGO_2G'', []),
                          (''ALGO_3G'', []), (''ALGO_4G5G'', []), (''USE_OPC'', []),
                          (''HPLMN'', [])]],
                columns = STANDARD_COLUMNS, filepath = Some ''batch.csv''\<rparr>, True)
   \<and> map_of [(''ICCID'', []), (''IMSI'', []), (''Ki'', []), (''OPc'', []),
              (''ADM1'', []), (''MNC_LENGTH'', []), (''ALGO_2G'', []),
              (''ALGO_3G'', []), (''ALGO_4G5G'', []), (''USE_OPC'', []),
              (''HPLMN'', [])] ''FOO'' = (None :: string option)"
  by (simp add: save_then_load_def save_csv_def add_card_def csv_manager_init_def
        DictWriter_table_def DictWriter_row_def dict_get_def DictReader_read_def
        oversized_def field_size_limit_def
        STANDARD_COLUMNS_def dict_of_zip_def dict_set_def load_csv_def Let_def)

text \<open>
  Claim C9, amended. For every batch whose column list is not empty and in which no
  column name and no value under a column is longer than 131072 characters (the field
  limit of the reader), saving to a writable file and then loading it succeeds and gives
  the same column list and as many records, in the same order. Save writes the header
  and, for each record, one cell for each column, holding the value of the record under
  that column, or the empty text if it has none; a field under a name outside the column
  list is not written. So each record read back has exactly the columns as its keys,
  each with the value the saved record had under that column or the empty text. When
  every record has exactly the columns as its keys, the records read back are the
  records saved, every field value preserved.
\<close>

theorem save_then_load_roundtrip:
  assumes "columns m \<noteq> []"
    and "\<forall>k \<in> set (columns m). length k \<le> field_size_limit"
    and "\<forall>c \<in> set (cards m). \<forall>k \<in> set (columns m). length (dict_get c k []) \<le> field_size_limit"
  shows "snd (snd (save_csv m fp True))
           = Some (columns m # map (\<lambda>c. map (\<lambda>k. dict_get c k []) (columns m)) (cards m))
    \<and> (case save_then_load m fp of
         None \<Rightarrow> False
       | Some (m', ok) \<Rightarrow>
           ok \<and> columns m' = columns m
           \<and> length (cards m') = length (cards m)
           \<and> (\<forall>i < length (cards m). \<forall>k.
                 map_of (cards m' ! i) k
                   = (if k \<in> set (columns m) then Some (dict_get (cards m ! i) k []) else None))
           \<and> (\<forall>c' \<in> set (cards m'). set (dict_keys c') = set (columns m))
           \<and> ((\<forall>c \<in> set (cards m). set (dict_keys c) = set (columns m))
                \<longrightarrow> map map_of (cards m') = map map_of (cards m)))"
proof -
  let ?reread = "\<lambda>d. dict_of_zip (columns m) (DictWriter_row (columns m) d)"
  have lim: "\<forall>d \<in> set (cards m). \<not> oversized (DictWriter_row (columns m) d)"
    using assms(3) by (fastforce simp: oversized_def DictWriter_row_def list_ex_iff)
  have rd: "DictReader_read (DictWriter_table (columns m) (cards m))
      = Some (Parsed (columns m) (map ?reread (cards m)))"
    by (rule read_written_table[OF assms(1) not_oversized_columns[OF assms(2)] lim])
  have stl: "save_then_load m fp
      = Some (m\<lparr>filepath := Some fp, columns := columns m, cards := map ?reread (cards m)\<rparr>, True)"
    by (simp add: save_then_load_def save_csv_def rd load_csv_def)
  have written: "snd (snd (save_csv m fp True))
      = Some (columns m # map (\<lambda>c. map (\<lambda>k. dict_get c k []) (columns m)) (cards m))"
    by (simp add: save_csv_def DictWriter_table_def DictWriter_row_def[abs_def])
  have cell: "\<forall>i < length (cards m). \<forall>k.
      map_of (map ?reread (cards m) ! i) k
        = (if k \<in> set (columns m) then Some (dict_get (cards m ! i) k []) else None)"
    by (simp add: DictWriter_row_def map_of_dict_of_zip_row)
  have keys: "\<forall>c' \<in> set (map ?reread (cards m)). set (dict_keys c') = set (columns m)"
    by (auto simp: DictWriter_row_def keys_dict_of_zip_row)
  have same: "(\<forall>c \<in> set (cards m). set (dict_keys c) = set (columns m))
      \<longrightarrow> map (\<lambda>d. map_of (?reread d)) (cards m) = map map_of (cards m)"
    by (auto simp: roundtrip_card)
  show ?thesis
    using written cell keys same by (simp add: stl comp_def)
qed

theorem save_then_load_roundtrip_witness:
  "columns \<lparr>cards = [[(''A'', ''1''), (''B'', ''x, y'')], [(''B'', []), (''A'', ''2'')]],
            columns = [''A'', ''B''], filepath = None\<rparr> \<noteq> []
   \<and> (case save_then_load
             \<lparr>cards = [[(''A'', ''1''), (''B'', ''x, y'')], [(''B'', []), (''A'', ''2'')]],
              columns = [''A'', ''B''], filepath = None\<rparr> ''batch.csv'' of
         None \<Rightarrow> False
       | Some (m', ok) \<Rightarrow>
           ok \<and> map map_of (cards m')
                 = map map_of [[(''A'', ''1''), (''B'', ''x, y'')], [(''B'', []), (''A'', ''2'')]]
           \<and> length (cards m') = 2
           \<and> columns m' = [''A'', ''B''])"
proof -
  let ?m = "\<lparr>cards = [[(''A'', ''1''), (''B'', ''x, y'')], [(''B'', []), (''A'', ''2'')]],
            columns = [''A'', ''B''], filepath = None\<rparr>"
  have h: "columns ?m \<noteq> []"
    by simp
  have l1: "\<forall>k \<in> set (columns ?m). length k \<le> field_size_limit"
    by (simp add: field_size_limit_def)
  have l2: "\<forall>c \<in> set (cards ?m). \<forall>k \<in> set (columns ?m). length (dict_get c k []) \<le> field_size_limit"
    by (simp add: field_size_limit_def dict_get_def)
  have k: "\<forall>c \<in> set (cards ?m). set (dict_keys c) = set (columns ?m)"
    by (auto simp: dict_keys_def)
  from save_then_load_roundtrip [OF h l1 l2, of "''batch.csv''"] k h
  show ?thesis by (simp split: option.splits prod.splits)
qed

end
